theory Spec2Isabelle
  imports Main "HOL-Library.Word" "HOL-Library.Sublist"
begin

section \<open>The document printer base: dispatch and output buffer\<close>

text \<open>
  A shallow embedding of \<^verbatim>\<open>src/script/printer/base_doc_printer.cc\<close>: the constructor,
  \<^verbatim>\<open>Append\<close>, \<^verbatim>\<open>GetString\<close> and the type cascade of \<^verbatim>\<open>PrintDoc\<close>. Member functions
  take the object as the argument \<open>this\<close> and return it updated; an exception is a
  value that carries the object as it was when the exception left the call.
\<close>

subsection \<open>Document nodes\<close>

text \<open>
  The runtime type of the node a \<^verbatim>\<open>Doc\<close> refers to. The cascade of \<^verbatim>\<open>PrintDoc\<close> tests
  for 22 node classes, listed here in the order of the tests; \<open>OtherDocNode\<close> stands for
  every other class of node (a base class, or a class added later).
\<close>

datatype node_type =
    LiteralDocNode | IdDocNode | AttrAccessDocNode | IndexDocNode | OperationDocNode
  | CallDocNode | LambdaDocNode | ListDocNode | TupleDocNode | DictDocNode | SliceDocNode
  | StmtBlockDocNode | AssignDocNode | IfDocNode | WhileDocNode | ForDocNode
  | ScopeDocNode | ExprStmtDocNode | AssertDocNode | ReturnDocNode | FunctionDocNode
  | ClassDocNode | OtherDocNode

text \<open>
  The typed references, one for each node class of the cascade: the static type of the
  argument selects the overload of \<^verbatim>\<open>PrintTypedDoc\<close>.
\<close>

datatype doc_ref =
    LiteralDoc | IdDoc | AttrAccessDoc | IndexDoc | OperationDoc
  | CallDoc | LambdaDoc | ListDoc | TupleDoc | DictDoc | SliceDoc
  | StmtBlockDoc | AssignDoc | IfDoc | WhileDoc | ForDoc
  | ScopeDoc | ExprStmtDoc | AssertDoc | ReturnDoc | FunctionDoc
  | ClassDoc

text \<open>
  A document: the runtime type of its node, the type key the runtime reports for that
  type, and the fields of the node. The node classes are declared outside this file, so
  their fields are a type parameter.
\<close>

record 'a Doc =
  node_type :: node_type
  type_key :: string
  node_fields :: 'a

definition GetTypeKey :: "'a Doc \<Rightarrow> string" where
  "GetTypeKey doc = type_key doc"

text \<open>
  \<^verbatim>\<open>doc.as<T>()\<close>: the node when its runtime type is \<open>T\<close>, the null pointer otherwise.
\<close>

definition as_node :: "node_type \<Rightarrow> 'a Doc \<Rightarrow> 'a Doc option" where
  "as_node T doc = (if node_type doc = T then Some doc else None)"

subsection \<open>The printer\<close>

text \<open>
  Modelled from the spec: the class declaration (\<^verbatim>\<open>base_doc_printer.h\<close>) is not among
  the sources. The spec's printer holds an indentation-width setting and a text buffer
  and no other persisted state; these are the two members the source file names,
  \<^verbatim>\<open>indent_spaces_\<close> (an \<^verbatim>\<open>int\<close>) and \<^verbatim>\<open>output_\<close> (a string stream, here its contents).
  A name cannot end in an underscore here: the fields are \<open>indent_spaces\<close> and
  \<open>output_str\<close>, the value of \<^verbatim>\<open>output_.str()\<close>.
\<close>

record DocPrinter =
  indent_spaces :: "32 word"
  output_str :: string

text \<open>\<^verbatim>\<open>LOG(FATAL)\<close> raises an internal error that carries the message.\<close>

datatype error = InternalError string

text \<open>
  The outcome of a member function that returns nothing: \<open>Inr\<close> the printer after a
  normal return, \<open>Inl\<close> the exception together with the printer at the moment the
  exception is raised.
\<close>

type_synonym result = "(error \<times> DocPrinter) + DocPrinter"

text \<open>
  The 22 overloads of \<^verbatim>\<open>PrintTypedDoc\<close> are pure virtual: a subtype supplies them. They
  are a parameter of the model, one member function for each typed reference.
\<close>

type_synonym 'a renderers = "doc_ref \<Rightarrow> 'a Doc \<Rightarrow> DocPrinter \<Rightarrow> result"

definition newline :: char where
  "newline = CHR 0x0A"

text \<open>The constructor: the width is stored, the stream starts empty.\<close>

definition DocPrinter :: "32 word \<Rightarrow> DocPrinter" where
  "DocPrinter spaces = \<lparr>indent_spaces = spaces, output_str = []\<rparr>"

text \<open>
  \<^verbatim>\<open>GetString\<close> is a \<^verbatim>\<open>const\<close> member: \<open>text\<close> is a local copy of the stream's
  contents, and the object is returned as it was received.
\<close>

definition GetString :: "DocPrinter \<Rightarrow> string \<times> DocPrinter" where
  "GetString this =
     (let text = output_str this;
          text = (if text \<noteq> [] \<and> last text \<noteq> newline then text @ [newline] else text)
      in (text, this))"

subsection \<open>The dispatcher\<close>

text \<open>
  \<^verbatim>\<open>PrintDoc\<close>: the cascade of type tests, in the order of the source. The first test
  that yields a node calls the overload of \<^verbatim>\<open>PrintTypedDoc\<close> for the typed reference
  made from it (\<^verbatim>\<open>GetRef\<close>); when every test yields the null pointer, \<^verbatim>\<open>LOG(FATAL)\<close>
  raises with the type key of the node, the printer untouched.
\<close>

definition PrintDoc :: "'a renderers \<Rightarrow> 'a Doc \<Rightarrow> DocPrinter \<Rightarrow> result" where
  "PrintDoc PrintTypedDoc doc this = (
      case as_node LiteralDocNode doc of Some doc_node \<Rightarrow> PrintTypedDoc LiteralDoc doc_node this | None \<Rightarrow> (
      case as_node IdDocNode doc of Some doc_node \<Rightarrow> PrintTypedDoc IdDoc doc_node this | None \<Rightarrow> (
      case as_node AttrAccessDocNode doc of Some doc_node \<Rightarrow> PrintTypedDoc AttrAccessDoc doc_node this | None \<Rightarrow> (
      case as_node IndexDocNode doc of Some doc_node \<Rightarrow> PrintTypedDoc IndexDoc doc_node this | None \<Rightarrow> (
      case as_node OperationDocNode doc of Some doc_node \<Rightarrow> PrintTypedDoc OperationDoc doc_node this | None \<Rightarrow> (
      case as_node CallDocNode doc of Some doc_node \<Rightarrow> PrintTypedDoc CallDoc doc_node this | None \<Rightarrow> (
      case as_node LambdaDocNode doc of Some doc_node \<Rightarrow> PrintTypedDoc LambdaDoc doc_node this | None \<Rightarrow> (
      case as_node ListDocNode doc of Some doc_node \<Rightarrow> PrintTypedDoc ListDoc doc_node this | None \<Rightarrow> (
      case as_node TupleDocNode doc of Some doc_node \<Rightarrow> PrintTypedDoc TupleDoc doc_node this | None \<Rightarrow> (
      case as_node DictDocNode doc of Some doc_node \<Rightarrow> PrintTypedDoc DictDoc doc_node this | None \<Rightarrow> (
      case as_node SliceDocNode doc of Some doc_node \<Rightarrow> PrintTypedDoc SliceDoc doc_node this | None \<Rightarrow> (
      case as_node StmtBlockDocNode doc of Some doc_node \<Rightarrow> PrintTypedDoc StmtBlockDoc doc_node this | None \<Rightarrow> (
      case as_node AssignDocNode doc of Some doc_node \<Rightarrow> PrintTypedDoc AssignDoc doc_node this | None \<Rightarrow> (
      case as_node IfDocNode doc of Some doc_node \<Rightarrow> PrintTypedDoc IfDoc doc_node this | None \<Rightarrow> (
      case as_node WhileDocNode doc of Some doc_node \<Rightarrow> PrintTypedDoc WhileDoc doc_node this | None \<Rightarrow> (
      case as_node ForDocNode doc of Some doc_node \<Rightarrow> PrintTypedDoc ForDoc doc_node this | None \<Rightarrow> (
      case as_node ScopeDocNode doc of Some doc_node \<Rightarrow> PrintTypedDoc ScopeDoc doc_node this | None \<Rightarrow> (
      case as_node ExprStmtDocNode doc of Some doc_node \<Rightarrow> PrintTypedDoc ExprStmtDoc doc_node this | None \<Rightarrow> (
      case as_node AssertDocNode doc of Some doc_node \<Rightarrow> PrintTypedDoc AssertDoc doc_node this | None \<Rightarrow> (
      case as_node ReturnDocNode doc of Some doc_node \<Rightarrow> PrintTypedDoc ReturnDoc doc_node this | None \<Rightarrow> (
      case as_node FunctionDocNode doc of Some doc_node \<Rightarrow> PrintTypedDoc FunctionDoc doc_node this | None \<Rightarrow> (
      case as_node ClassDocNode doc of Some doc_node \<Rightarrow> PrintTypedDoc ClassDoc doc_node this | None \<Rightarrow> (
      Inl (InternalError (''Do not know how to print '' @ GetTypeKey doc), this)
      )))))))))))))))))))))))"

definition Append :: "'a renderers \<Rightarrow> 'a Doc \<Rightarrow> DocPrinter \<Rightarrow> result" where
  "Append PrintTypedDoc doc this = PrintDoc PrintTypedDoc doc this"

subsection \<open>Callers\<close>

text \<open>
  A caller makes a sequence of calls on one printer. \<open>run_calls\<close> yields the strings
  that the calls of \<^verbatim>\<open>GetString\<close> returned, in order, and the outcome; an
  exception ends the sequence.
\<close>

datatype 'a call = Append_call "'a Doc" | GetString_call

fun run_calls :: "'a renderers \<Rightarrow> 'a call list \<Rightarrow> DocPrinter \<Rightarrow> string list \<times> result" where
  "run_calls r [] this = ([], Inr this)"
| "run_calls r (Append_call doc # cs) this =
     (case Append r doc this of
        Inl e \<Rightarrow> ([], Inl e)
      | Inr this' \<Rightarrow> run_calls r cs this')"
| "run_calls r (GetString_call # cs) this =
     (case GetString this of
        (text, this') \<Rightarrow> (case run_calls r cs this' of (texts, res) \<Rightarrow> (text # texts, res)))"

text \<open>The printer a sequence of calls leaves: after a return, or when the exception is raised.\<close>

definition printer_of :: "result \<Rightarrow> DocPrinter" where
  "printer_of res = (case res of Inl (e, this) \<Rightarrow> this | Inr this \<Rightarrow> this)"

subsection \<open>The rendering operations' side of the interface\<close>

text \<open>
  Modelled from the spec: the rendering operations are members of subtypes, outside the
  source file. The spec has them write to the buffer through \<^verbatim>\<open>append_text\<close>, which
  appends raw text: an operation that returns has only added to the stream.
\<close>

definition appends_only :: "'a renderers \<Rightarrow> bool" where
  "appends_only r =
     (\<forall>T doc this this'. r T doc this = Inr this'
        \<longrightarrow> prefix (output_str this) (output_str this'))"

text \<open>
  Modelled from the spec: the width is an immutable setting that the rendering
  operations read. An operation leaves it as it found it, whether it returns or raises.
\<close>

definition keeps_indent_spaces :: "'a renderers \<Rightarrow> bool" where
  "keeps_indent_spaces r =
     (\<forall>T doc this. indent_spaces (printer_of (r T doc this)) = indent_spaces this)"

subsection \<open>The specification's vocabulary\<close>

text \<open>
  The closed set of known kinds, and the rendering operation that matches each kind:
  the overload for the typed reference of that node class.
\<close>

definition known_kinds :: "node_type list" where
  "known_kinds =
     [LiteralDocNode, IdDocNode, AttrAccessDocNode, IndexDocNode, OperationDocNode,
      CallDocNode, LambdaDocNode, ListDocNode, TupleDocNode, DictDocNode,
      SliceDocNode, StmtBlockDocNode, AssignDocNode, IfDocNode, WhileDocNode,
      ForDocNode, ScopeDocNode, ExprStmtDocNode, AssertDocNode, ReturnDocNode,
      FunctionDocNode, ClassDocNode]"

fun matching :: "node_type \<Rightarrow> doc_ref option" where
  "matching LiteralDocNode = Some LiteralDoc"
| "matching IdDocNode = Some IdDoc"
| "matching AttrAccessDocNode = Some AttrAccessDoc"
| "matching IndexDocNode = Some IndexDoc"
| "matching OperationDocNode = Some OperationDoc"
| "matching CallDocNode = Some CallDoc"
| "matching LambdaDocNode = Some LambdaDoc"
| "matching ListDocNode = Some ListDoc"
| "matching TupleDocNode = Some TupleDoc"
| "matching DictDocNode = Some DictDoc"
| "matching SliceDocNode = Some SliceDoc"
| "matching StmtBlockDocNode = Some StmtBlockDoc"
| "matching AssignDocNode = Some AssignDoc"
| "matching IfDocNode = Some IfDoc"
| "matching WhileDocNode = Some WhileDoc"
| "matching ForDocNode = Some ForDoc"
| "matching ScopeDocNode = Some ScopeDoc"
| "matching ExprStmtDocNode = Some ExprStmtDoc"
| "matching AssertDocNode = Some AssertDoc"
| "matching ReturnDocNode = Some ReturnDoc"
| "matching FunctionDocNode = Some FunctionDoc"
| "matching ClassDocNode = Some ClassDoc"
| "matching OtherDocNode = None"

subsection \<open>A renderer and documents for the examples\<close>

text \<open>
  A renderer whose every operation writes the fields of the node, a string, to the
  stream; an identifier \<open>x\<close>, a literal \<open>1\<close>, and a node of a class the cascade does not
  test for.
\<close>

definition write_fields :: "string renderers" where
  "write_fields T doc this = Inr (this\<lparr>output_str := output_str this @ node_fields doc\<rparr>)"

definition id_x :: "string Doc" where
  "id_x = \<lparr>node_type = IdDocNode, type_key = ''script.printer.IdDoc'', node_fields = ''x''\<rparr>"

definition literal_1 :: "string Doc" where
  "literal_1 =
     \<lparr>node_type = LiteralDocNode, type_key = ''script.printer.LiteralDoc'', node_fields = ''1''\<rparr>"

definition other_doc :: "string Doc" where
  "other_doc =
     \<lparr>node_type = OtherDocNode, type_key = ''script.printer.NewDoc'', node_fields = ''?''\<rparr>"

section \<open>Properties\<close>

subsection \<open>The cascade as a table\<close>

text \<open>
  The cascade of type tests computes the table \<open>matching\<close>: a node of a tested class
  goes to the overload for its typed reference, any other node to the fatal branch.
\<close>

lemma PrintDoc_matching:
  "PrintDoc r doc this =
     (case matching (node_type doc) of
        Some T \<Rightarrow> r T doc this
      | None \<Rightarrow> Inl (InternalError (''Do not know how to print '' @ type_key doc), this))"
  by (cases "node_type doc") (simp_all add: PrintDoc_def as_node_def GetTypeKey_def)

lemma known_kinds_matching: "k \<in> set known_kinds \<longleftrightarrow> matching k \<noteq> None"
  by (cases k) (simp_all add: known_kinds_def)

lemma known_kinds_closed: "length known_kinds = 22 \<and> distinct known_kinds"
  by (simp add: known_kinds_def)

lemma matching_inj: "matching k = Some T \<Longrightarrow> matching k' = Some T \<Longrightarrow> k = k'"
  by (cases k; cases k'; simp)

subsection \<open>Dispatch\<close>

text \<open>
  C1. For a node whose kind is one of the 22 known kinds, \<open>Append\<close> is the call of the
  one rendering operation that matches the kind: its outcome is that operation's
  outcome on the same node and printer, whatever the renderer is; replacing any other
  rendering operation changes nothing; and the call raises only what that operation
  raises, so the fatal branch of the cascade is not taken.
\<close>

theorem Append_known_kind:
  assumes "node_type doc \<in> set known_kinds"
  shows "\<exists>T. matching (node_type doc) = Some T
             \<and> Append r doc this = r T doc this
             \<and> (\<forall>T' f. T' \<noteq> T \<longrightarrow> Append (r(T' := f)) doc this = r T doc this)
             \<and> (\<forall>this'. r T doc this = Inr this' \<longrightarrow> Append r doc this = Inr this')"
proof -
  from assms obtain T where T: "matching (node_type doc) = Some T"
    by (auto simp: known_kinds_matching)
  have "Append r' doc this = r' T doc this" for r' :: "'a renderers"
    by (simp add: Append_def PrintDoc_matching T)
  then show ?thesis using T by auto
qed

theorem Append_known_kind_witness:
  "node_type id_x \<in> set known_kinds
   \<and> Append write_fields id_x (DocPrinter 4) = Inr \<lparr>indent_spaces = 4, output_str = ''x''\<rparr>
   \<and> Append (write_fields(LiteralDoc := \<lambda>d p. Inl (InternalError ''no'', p))) id_x (DocPrinter 4)
       = Inr \<lparr>indent_spaces = 4, output_str = ''x''\<rparr>"
proof -
  have k: "node_type id_x \<in> set known_kinds"
    by (simp add: id_x_def known_kinds_def)
  have m: "matching (node_type id_x) = Some T \<longleftrightarrow> T = IdDoc" for T
    by (auto simp: id_x_def)
  have w: "write_fields T id_x (DocPrinter 4) = Inr \<lparr>indent_spaces = 4, output_str = ''x''\<rparr>" for T
    by (simp add: write_fields_def id_x_def DocPrinter_def)
  from Append_known_kind [OF k, of write_fields "DocPrinter 4"] k m w show ?thesis
    by auto
qed

text \<open>
  C2. For a node whose kind is not one of the known kinds, \<open>Append\<close> does not return: it
  raises the internal error whose message is \<^verbatim>\<open>Do not know how to print\<close> followed by
  the type key of the node. The error depends on the node alone, not on the renderer
  or on the state of the printer.
\<close>

theorem Append_unknown_kind:
  assumes "node_type doc \<notin> set known_kinds"
  shows "isl (Append r doc this)
         \<and> fst (projl (Append r doc this))
             = InternalError (''Do not know how to print '' @ type_key doc)"
proof -
  from assms have "matching (node_type doc) = None"
    by (simp add: known_kinds_matching)
  then show ?thesis
    by (simp add: Append_def PrintDoc_matching)
qed

theorem Append_unknown_kind_witness:
  "node_type other_doc \<notin> set known_kinds
   \<and> isl (Append write_fields other_doc (DocPrinter 4))
   \<and> fst (projl (Append write_fields other_doc (DocPrinter 4)))
       = InternalError ''Do not know how to print script.printer.NewDoc''"
proof -
  have k: "node_type other_doc \<notin> set known_kinds"
    by (simp add: other_doc_def known_kinds_def)
  from Append_unknown_kind [OF k, of write_fields "DocPrinter 4"] k show ?thesis
    by (simp add: other_doc_def)
qed

text \<open>
  C10. When \<open>Append\<close> is called with a node whose own kind is unknown, the error is
  raised with the printer as it was before the call: nothing has been written, and the
  buffer at the moment of failure is the buffer before the call.
\<close>

theorem Append_unknown_kind_atomic:
  assumes "node_type doc \<notin> set known_kinds"
  shows "\<exists>e this'. Append r doc this = Inl (e, this') \<and> this' = this
                    \<and> output_str this' = output_str this"
proof -
  from assms have "matching (node_type doc) = None"
    by (simp add: known_kinds_matching)
  then show ?thesis
    by (simp add: Append_def PrintDoc_matching)
qed

theorem Append_unknown_kind_atomic_witness:
  "node_type other_doc \<notin> set known_kinds
   \<and> (\<exists>e. Append write_fields other_doc \<lparr>indent_spaces = 4, output_str = ''x''\<rparr>
            = Inl (e, \<lparr>indent_spaces = 4, output_str = ''x''\<rparr>))"
proof -
  have k: "node_type other_doc \<notin> set known_kinds"
    by (simp add: other_doc_def known_kinds_def)
  from Append_unknown_kind_atomic
         [OF k, of write_fields "\<lparr>indent_spaces = 4, output_str = ''x''\<rparr>"] k
  show ?thesis by auto
qed

subsection \<open>The final text\<close>

text \<open>
  C3. When the buffer is not empty and does not end in a newline, \<open>GetString\<close> returns
  the buffer followed by one newline; when the buffer is not empty and ends in a
  newline, \<open>GetString\<close> returns the buffer as it is.
\<close>

theorem GetString_nonempty:
  "(output_str this \<noteq> [] \<and> last (output_str this) \<noteq> newline
      \<longrightarrow> fst (GetString this) = output_str this @ [newline])
   \<and> (output_str this \<noteq> [] \<and> last (output_str this) = newline
      \<longrightarrow> fst (GetString this) = output_str this)"
  by (simp add: GetString_def)

theorem GetString_nonempty_witness:
  "fst (GetString \<lparr>indent_spaces = 4, output_str = ''ab''\<rparr>) = [CHR ''a'', CHR ''b'', CHR 0x0A]
   \<and> fst (GetString \<lparr>indent_spaces = 4, output_str = [CHR ''a'', CHR ''b'', CHR 0x0A]\<rparr>)
       = [CHR ''a'', CHR ''b'', CHR 0x0A]"
  using GetString_nonempty [of "\<lparr>indent_spaces = 4, output_str = ''ab''\<rparr>"]
        GetString_nonempty [of "\<lparr>indent_spaces = 4, output_str = [CHR ''a'', CHR ''b'', CHR 0x0A]\<rparr>"]
  by (simp add: newline_def)

text \<open>
  C4. On a printer whose buffer is empty, \<open>GetString\<close> returns the empty string: no
  newline is added.
\<close>

theorem GetString_empty:
  "output_str this = [] \<Longrightarrow> fst (GetString this) = []"
  by (simp add: GetString_def)

theorem GetString_empty_witness:
  "output_str (DocPrinter 4) = [] \<and> fst (GetString (DocPrinter 4)) = []"
proof -
  have e: "output_str (DocPrinter 4) = []"
    by (simp add: DocPrinter_def)
  from GetString_empty [OF e] e show ?thesis by simp
qed

text \<open>
  C5. \<open>GetString\<close> leaves the printer as it was, its buffer included (the newline goes
  to the returned copy only), and a second call returns the same string as the first.
\<close>

theorem GetString_pure:
  "snd (GetString this) = this
   \<and> output_str (snd (GetString this)) = output_str this
   \<and> fst (GetString (snd (GetString this))) = fst (GetString this)
   \<and> run_calls r [GetString_call, GetString_call] this
       = ([fst (GetString this), fst (GetString this)], Inr this)"
  by (simp add: GetString_def Let_def)

subsection \<open>Sequences of calls\<close>

text \<open>
  The rendering operations are supplied by a subtype. The next properties are about
  what the dispatcher and the buffer add to them, so each states what it takes from the
  operations: the text an operation writes, \<open>appends_only\<close>, or \<open>keeps_indent_spaces\<close>.
\<close>

lemma write_fields_appends_only: "appends_only write_fields"
  by (auto simp: appends_only_def write_fields_def)

lemma write_fields_keeps_indent_spaces: "keeps_indent_spaces write_fields"
  by (simp add: keeps_indent_spaces_def write_fields_def printer_of_def)

lemma Append_matching:
  "matching (node_type doc) = Some T \<Longrightarrow> Append r doc this = r T doc this"
  by (simp add: Append_def PrintDoc_matching)

lemma Append_returns:
  assumes "Append r doc this = Inr this'"
  obtains T where "matching (node_type doc) = Some T" and "r T doc this = Inr this'"
  using assms by (auto simp: Append_def PrintDoc_matching split: option.splits)

lemma Append_raises:
  assumes "Append r doc this = Inl (e, this')"
  shows "this' = this \<or> (\<exists>T. r T doc this = Inl (e, this'))"
  using assms by (auto simp: Append_def PrintDoc_matching split: option.splits)

lemma run_calls_GetString:
  "run_calls r (GetString_call # cs) this
     = (fst (GetString this) # fst (run_calls r cs this), snd (run_calls r cs this))"
  by (simp add: GetString_def Let_def split: prod.splits)

lemma appends_onlyD:
  "appends_only r \<Longrightarrow> r T d p = Inr p' \<Longrightarrow> prefix (output_str p) (output_str p')"
  unfolding appends_only_def by blast

lemma keeps_indent_spacesD:
  assumes "keeps_indent_spaces r"
  shows "r T d p = Inr p' \<Longrightarrow> indent_spaces p' = indent_spaces p"
    and "r T d p = Inl (e, p') \<Longrightarrow> indent_spaces p' = indent_spaces p"
  using assms [unfolded keeps_indent_spaces_def, rule_format, of T d p]
  by (simp_all add: printer_of_def)

lemma run_calls_appends:
  assumes r: "appends_only r"
  shows "run_calls r cs this = (texts, Inr this')
           \<Longrightarrow> prefix (output_str this) (output_str this')"
proof (induction cs arbitrary: this texts)
  case Nil
  then show ?case by simp
next
  case (Cons c cs)
  show ?case
  proof (cases c)
    case (Append_call doc)
    with Cons.prems obtain p where p: "Append r doc this = Inr p"
      and rest: "run_calls r cs p = (texts, Inr this')"
      by (auto split: sum.splits)
    from p have "prefix (output_str this) (output_str p)"
      by (auto elim!: Append_returns dest: appends_onlyD [OF r])
    moreover from rest have "prefix (output_str p) (output_str this')"
      by (rule Cons.IH)
    ultimately show ?thesis by (rule prefix_order.trans)
  next
    case GetString_call
    with Cons.prems have "snd (run_calls r cs this) = Inr this'"
      by (simp add: run_calls_GetString del: run_calls.simps)
    then have "run_calls r cs this = (fst (run_calls r cs this), Inr this')"
      by (simp add: prod_eq_iff)
    then show ?thesis by (rule Cons.IH)
  qed
qed

lemma run_calls_indent:
  assumes r: "keeps_indent_spaces r"
  shows "indent_spaces (printer_of (snd (run_calls r cs this))) = indent_spaces this"
proof (induction cs arbitrary: this)
  case Nil
  show ?case by (simp add: printer_of_def)
next
  case (Cons c cs)
  show ?case
  proof (cases c)
    case (Append_call doc)
    show ?thesis
    proof (cases "Append r doc this")
      case (Inl ep)
      obtain e p where ep: "ep = (e, p)" by (cases ep)
      with Inl have "p = this \<or> (\<exists>T. r T doc this = Inl (e, p))"
        by (simp add: Append_raises)
      then have "indent_spaces p = indent_spaces this"
        by (auto dest: keeps_indent_spacesD(2) [OF r])
      with Inl ep Append_call show ?thesis
        by (simp add: printer_of_def)
    next
      case (Inr p)
      then have "indent_spaces p = indent_spaces this"
        by (auto elim!: Append_returns dest: keeps_indent_spacesD(1) [OF r])
      with Inr Append_call Cons.IH [of p] show ?thesis
        by simp
    qed
  next
    case GetString_call
    with Cons.IH [of this] show ?thesis
      by (simp add: run_calls_GetString del: run_calls.simps)
  qed
qed

text \<open>
  C6. Let \<open>a\<close> and \<open>b\<close> be nodes of known kinds, let the operation matching \<open>a\<close> write the
  text \<open>ta\<close>, and let the operation matching \<open>b\<close>, run on the printer that \<open>a\<close> left,
  write the text \<open>tb\<close>. Then appending \<open>a\<close> and then \<open>b\<close> returns, and the buffer is the
  buffer before the two calls followed by \<open>ta\<close> followed by \<open>tb\<close>.
\<close>

theorem Append_siblings_in_order:
  assumes "node_type a \<in> set known_kinds" and "node_type b \<in> set known_kinds"
    and "r (the (matching (node_type a))) a this = Inr this1"
    and "output_str this1 = output_str this @ ta"
    and "r (the (matching (node_type b))) b this1 = Inr this2"
    and "output_str this2 = output_str this1 @ tb"
  shows "run_calls r [Append_call a, Append_call b] this = ([], Inr this2)
         \<and> output_str this2 = output_str this @ ta @ tb"
proof -
  from assms(1) obtain Ta where Ta: "matching (node_type a) = Some Ta"
    by (auto simp: known_kinds_matching)
  from assms(2) obtain Tb where Tb: "matching (node_type b) = Some Tb"
    by (auto simp: known_kinds_matching)
  from Ta assms(3) have a: "Append r a this = Inr this1"
    by (simp add: Append_matching)
  from Tb assms(5) have b: "Append r b this1 = Inr this2"
    by (simp add: Append_matching)
  from a b assms(4,6) show ?thesis by simp
qed

theorem Append_siblings_in_order_witness:
  "run_calls write_fields [Append_call id_x, Append_call literal_1] (DocPrinter 4)
     = ([], Inr \<lparr>indent_spaces = 4, output_str = ''x1''\<rparr>)
   \<and> ''x1'' = output_str (DocPrinter 4) @ ''x'' @ ''1''"
proof -
  have k: "node_type id_x \<in> set known_kinds" "node_type literal_1 \<in> set known_kinds"
    by (simp_all add: id_x_def literal_1_def known_kinds_def)
  have a: "write_fields (the (matching (node_type id_x))) id_x (DocPrinter 4)
             = Inr \<lparr>indent_spaces = 4, output_str = ''x''\<rparr>"
    by (simp add: write_fields_def id_x_def DocPrinter_def)
  have ta: "output_str \<lparr>indent_spaces = 4, output_str = ''x''\<rparr> = output_str (DocPrinter 4) @ ''x''"
    by (simp add: DocPrinter_def)
  have b: "write_fields (the (matching (node_type literal_1))) literal_1
             \<lparr>indent_spaces = 4, output_str = ''x''\<rparr>
             = Inr \<lparr>indent_spaces = 4, output_str = ''x1''\<rparr>"
    by (simp add: write_fields_def literal_1_def)
  have tb: "output_str \<lparr>indent_spaces = 4, output_str = ''x1''\<rparr>
              = output_str \<lparr>indent_spaces = 4, output_str = ''x''\<rparr> @ ''1''"
    by simp
  from Append_siblings_in_order
         [of id_x literal_1 write_fields "DocPrinter 4"
             "\<lparr>indent_spaces = 4, output_str = ''x''\<rparr>" "''x''"
             "\<lparr>indent_spaces = 4, output_str = ''x1''\<rparr>" "''1''", OF k a ta b tb]
  show ?thesis by (simp add: DocPrinter_def)
qed

text \<open>
  C7. When the rendering operations only add to the stream, so does \<open>Append\<close>: after a
  call that returns, and after any sequence of calls that returns, the buffer before is
  a prefix of the buffer after.
\<close>

theorem Append_extends_buffer:
  assumes "appends_only r"
  shows "(\<forall>this'. Append r doc this = Inr this'
            \<longrightarrow> prefix (output_str this) (output_str this'))
         \<and> (\<forall>texts this'. run_calls r cs this = (texts, Inr this')
            \<longrightarrow> prefix (output_str this) (output_str this'))"
proof (intro conjI allI impI)
  fix this' assume "Append r doc this = Inr this'"
  then show "prefix (output_str this) (output_str this')"
    by (auto elim!: Append_returns dest: appends_onlyD [OF assms])
next
  fix texts this' assume "run_calls r cs this = (texts, Inr this')"
  with assms show "prefix (output_str this) (output_str this')"
    by (rule run_calls_appends)
qed

theorem Append_extends_buffer_witness:
  "appends_only write_fields
   \<and> Append write_fields literal_1 \<lparr>indent_spaces = 4, output_str = ''x''\<rparr>
     = Inr \<lparr>indent_spaces = 4, output_str = ''x1''\<rparr>
   \<and> prefix ''x'' ''x1''
   \<and> run_calls write_fields [Append_call id_x, GetString_call, Append_call literal_1]
        (DocPrinter 4)
       = ([[CHR ''x'', CHR 0x0A]], Inr \<lparr>indent_spaces = 4, output_str = ''x1''\<rparr>)
   \<and> prefix (output_str (DocPrinter 4)) ''x1''"
proof -
  have a: "Append write_fields literal_1 \<lparr>indent_spaces = 4, output_str = ''x''\<rparr>
             = Inr \<lparr>indent_spaces = 4, output_str = ''x1''\<rparr>"
    by (simp add: Append_matching literal_1_def write_fields_def)
  have s: "run_calls write_fields [Append_call id_x, GetString_call, Append_call literal_1]
             (DocPrinter 4)
             = ([[CHR ''x'', CHR 0x0A]], Inr \<lparr>indent_spaces = 4, output_str = ''x1''\<rparr>)"
    by (simp add: Append_matching id_x_def literal_1_def write_fields_def DocPrinter_def
          GetString_def newline_def)
  from Append_extends_buffer [of write_fields literal_1
         "\<lparr>indent_spaces = 4, output_str = ''x''\<rparr>"
         "[Append_call id_x, GetString_call, Append_call literal_1]", OF write_fields_appends_only]
  have "prefix ''x'' ''x1''"
    using a by auto
  moreover from Append_extends_buffer [of write_fields literal_1 "DocPrinter 4"
         "[Append_call id_x, GetString_call, Append_call literal_1]", OF write_fields_appends_only]
  have "prefix (output_str (DocPrinter 4)) ''x1''"
    using s by auto
  ultimately show ?thesis using a s by (simp add: write_fields_appends_only)
qed

text \<open>
  C8. The width is set by the constructor and by nothing else: when the rendering
  operations leave it alone, then after any sequence of calls of \<open>Append\<close> and
  \<open>GetString\<close> on a printer constructed with width \<open>w\<close>, ended by an exception or not,
  the width is \<open>w\<close>, and the printer is that width and its buffer, nothing more.
\<close>

theorem indent_spaces_fixed:
  assumes "keeps_indent_spaces r"
    and "this' = printer_of (snd (run_calls r cs (DocPrinter w)))"
  shows "indent_spaces this' = w
         \<and> this' = \<lparr>indent_spaces = w, output_str = output_str this'\<rparr>"
proof -
  from assms have "indent_spaces this' = indent_spaces (DocPrinter w)"
    by (simp add: run_calls_indent)
  then have "indent_spaces this' = w"
    by (simp add: DocPrinter_def)
  then show ?thesis by simp
qed

theorem indent_spaces_fixed_witness:
  "keeps_indent_spaces write_fields
   \<and> printer_of (snd (run_calls write_fields
         [Append_call id_x, GetString_call, Append_call other_doc, Append_call literal_1]
         (DocPrinter 4)))
       = \<lparr>indent_spaces = 4, output_str = ''x''\<rparr>"
proof -
  have s: "output_str (printer_of (snd (run_calls write_fields
       [Append_call id_x, GetString_call, Append_call other_doc, Append_call literal_1]
       (DocPrinter 4)))) = ''x''"
    by (simp add: Append_def PrintDoc_matching id_x_def other_doc_def write_fields_def
          DocPrinter_def GetString_def Let_def printer_of_def)
  from indent_spaces_fixed [of write_fields _
         "[Append_call id_x, GetString_call, Append_call other_doc, Append_call literal_1]" 4,
         OF write_fields_keeps_indent_spaces refl] s
  show ?thesis by (simp add: write_fields_keeps_indent_spaces)
qed

text \<open>
  C9. On a fresh printer, when the renderer writes \<^verbatim>\<open>x\<close> for the identifier node and
  \<^verbatim>\<open>1\<close> for the literal node, appending the identifier and then the literal makes
  \<open>GetString\<close> return \<^verbatim>\<open>x1\<close> followed by one newline.
\<close>

theorem identifier_then_literal:
  assumes "node_type x = IdDocNode" and "node_type one = LiteralDocNode"
    and "\<And>p. r IdDoc x p = Inr (p\<lparr>output_str := output_str p @ ''x''\<rparr>)"
    and "\<And>p. r LiteralDoc one p = Inr (p\<lparr>output_str := output_str p @ ''1''\<rparr>)"
  shows "run_calls r [Append_call x, Append_call one, GetString_call] (DocPrinter w)
           = ([[CHR ''x'', CHR ''1'', CHR 0x0A]], Inr \<lparr>indent_spaces = w, output_str = ''x1''\<rparr>)"
  using assms
  by (simp add: Append_matching DocPrinter_def GetString_def newline_def)

theorem identifier_then_literal_witness:
  "run_calls write_fields [Append_call id_x, Append_call literal_1, GetString_call] (DocPrinter 4)
     = ([[CHR ''x'', CHR ''1'', CHR 0x0A]], Inr \<lparr>indent_spaces = 4, output_str = ''x1''\<rparr>)"
proof -
  have x: "node_type id_x = IdDocNode" and one: "node_type literal_1 = LiteralDocNode"
    by (simp_all add: id_x_def literal_1_def)
  have wx: "write_fields IdDoc id_x p = Inr (p\<lparr>output_str := output_str p @ ''x''\<rparr>)" for p
    by (simp add: write_fields_def id_x_def)
  have w1: "write_fields LiteralDoc literal_1 p = Inr (p\<lparr>output_str := output_str p @ ''1''\<rparr>)"
    for p
    by (simp add: write_fields_def literal_1_def)
  from identifier_then_literal [OF x one wx w1] show ?thesis .
qed

end
